theory Spec2Isabelle
  imports Complex_Main "HOL-Library.AList"
begin

section \<open>Python values and exceptions\<close>

text \<open>
  The embedding follows \<^verbatim>\<open>src/emulated_hue/controllers/devices.py\<close>. A Python
  exception is a value of \<open>error\<close>. A method that mutates the device and may raise
  returns a pair: what it returned or raised, and the device as it is afterwards (a raise
  does not undo the mutations made before it). Python floats (transition times, xy
  coordinates, timestamps) are modelled as exact reals; Python ints are \<open>int\<close>.
\<close>

datatype error = TypeError | AttributeError | BackendError | StoreError

text \<open>Truthiness of the values that \<^verbatim>\<open>or\<close> and \<^verbatim>\<open>if\<close> test in the source.\<close>

definition truthy_bool :: "bool \<Rightarrow> bool" where
  "truthy_bool b = b"

definition truthy_int :: "int \<Rightarrow> bool" where
  "truthy_int i = (i \<noteq> 0)"

definition truthy_float :: "real \<Rightarrow> bool" where
  "truthy_float x = (x \<noteq> 0)"

definition truthy_str :: "string \<Rightarrow> bool" where
  "truthy_str s = (s \<noteq> [])"

text \<open>A tuple of two or three components is never empty, hence always truthy.\<close>

definition truthy_tuple :: "'a \<Rightarrow> bool" where
  "truthy_tuple t = True"

text \<open>
  \<^verbatim>\<open>x or kwargs.get(k)\<close> for a call that passes its arguments positionally (so
  \<^verbatim>\<open>kwargs\<close> is empty and \<^verbatim>\<open>kwargs.get(k)\<close> is \<^verbatim>\<open>None\<close>): a falsy \<open>x\<close>
  becomes \<^verbatim>\<open>None\<close>.
\<close>

definition py_or_None :: "('a \<Rightarrow> bool) \<Rightarrow> 'a \<Rightarrow> 'a option" where
  "py_or_None truthy x = (if truthy x then Some x else None)"

text \<open>\<^verbatim>\<open>int(x)\<close> on a float truncates towards zero.\<close>

definition py_int :: "real \<Rightarrow> int" where
  "py_int x = (if 0 \<le> x then \<lfloor>x\<rfloor> else \<lceil>x\<rceil>)"

section \<open>Entity state\<close>

text \<open>
  Modelled from the spec: \<^verbatim>\<open>models.EntityState\<close> and \<^verbatim>\<open>models.ALL_STATES\<close> are
  imported by the source but are not among the source files. Following section 3 of the
  specification, the entity state is a record whose fields may each be unset
  (\<open>None\<close>), equality is structural, and \<^verbatim>\<open>ALL_STATES\<close> names every field of the
  record. The field names are the attribute names the source reads and writes.
\<close>

record EntityState =
  power_state :: "bool option"
  reachable :: "bool option"
  transition_seconds :: "real option"
  brightness :: "int option"
  flash_state :: "string option"
  color_temp :: "int option"
  color_mode :: "string option"
  hue_saturation :: "(int \<times> int) option"
  xy_color :: "(real \<times> real) option"
  rgb_color :: "(int \<times> int \<times> int) option"
  effect :: "string option"

text \<open>\<^verbatim>\<open>EntityState()\<close> with no keyword: every field unset.\<close>

definition EntityState_empty :: EntityState where
  "EntityState_empty =
     \<lparr>power_state = None, reachable = None, transition_seconds = None, brightness = None,
      flash_state = None, color_temp = None, color_mode = None, hue_saturation = None,
      xy_color = None, rgb_color = None, effect = None\<rparr>"

text \<open>
  Modelled from the spec: the string constants of \<^verbatim>\<open>emulated_hue.const\<close> are not among
  the source files; their values are the color-mode names the specification's truth table
  uses.
\<close>

definition HASS_COLOR_MODE_HS :: string where "HASS_COLOR_MODE_HS = ''hs''"
definition HASS_COLOR_MODE_XY :: string where "HASS_COLOR_MODE_XY = ''xy''"
definition HASS_COLOR_MODE_RGB :: string where "HASS_COLOR_MODE_RGB = ''rgb''"
definition HASS_COLOR_MODE_RGBW :: string where "HASS_COLOR_MODE_RGBW = ''rgbw''"
definition HASS_COLOR_MODE_RGBWW :: string where "HASS_COLOR_MODE_RGBWW = ''rgbww''"
definition HASS_COLOR_MODE_COLOR_TEMP :: string where "HASS_COLOR_MODE_COLOR_TEMP = ''color_temp''"
definition HASS_COLOR_MODE_WHITE :: string where "HASS_COLOR_MODE_WHITE = ''white''"
definition HASS_COLOR_MODE_BRIGHTNESS :: string where "HASS_COLOR_MODE_BRIGHTNESS = ''brightness''"
definition HASS_ATTR_COLOR_TEMP :: string where "HASS_ATTR_COLOR_TEMP = ''color_temp''"

section \<open>The device\<close>

datatype device_class = OnOffDevice | BrightnessDevice | CTDevice | RGBDevice | RGBWDevice

text \<open>
  The light configuration dictionary \<^verbatim>\<open>self._config\<close>: a key that is absent reads as
  \<open>None\<close>, as \<^verbatim>\<open>dict.get\<close> gives it. The \<^verbatim>\<open>"state"\<close> entry is a dictionary keyed
  by the names of \<^verbatim>\<open>ALL_STATES\<close>, held here as an entity-state record.
\<close>

record light_config =
  cfg_name :: "string option"
  cfg_uniqueid :: "string option"
  cfg_enabled :: "bool option"
  cfg_throttle :: "int option"
  cfg_state :: "EntityState option"

text \<open>What the collaborators see: log lines, backend commands, store writes.\<close>

datatype log_entry = InvalidControlId int | NoStateToExecute string

text \<open>
  A backend command names the entity and carries \<^verbatim>\<open>control_state.to_hass_data()\<close>;
  that method is not among the sources, so the command records the control state it is
  computed from.
\<close>

datatype hass_call = TurnOn string EntityState | TurnOff string EntityState

text \<open>
  The attributes of \<^verbatim>\<open>OnOffDevice\<close> that the modelled methods use. \<open>cls\<close> is the class
  of the object, which decides method resolution. \<open>control_state\<close> is the dictionary
  \<^verbatim>\<open>self._control_state\<close> as an association list. The last three fields are traces
  of the calls made to the logger, the backend client and the configuration store.
\<close>

record device =
  cls :: device_class
  light_id :: string
  entity_id :: string
  config :: light_config
  throttle_ms :: "int option"
  last_update :: real
  default_transition :: real
  hass_state :: "EntityState option"
  config_state :: "EntityState option"
  control_state :: "(int \<times> EntityState) list"
  warnings :: "log_entry list"
  hass_calls :: "hass_call list"
  storage_writes :: "(string \<times> light_config) list"

subsection \<open>Construction\<close>

text \<open>
  \<^verbatim>\<open>OnOffDevice.__init__\<close> (lines 108-141). \<open>now\<close> is
  \<^verbatim>\<open>datetime.now().timestamp()\<close>; \<^verbatim>\<open>const.DEFAULT_TRANSITION_SECONDS\<close> is not among
  the sources and is a parameter. The comparison
  \<^verbatim>\<open>self._throttle_ms > self._default_transition\<close> raises \<^verbatim>\<open>TypeError\<close> when the
  configuration has no throttle, since \<^verbatim>\<open>None > float\<close> is not defined in Python 3.
\<close>

definition OnOffDevice_init ::
  "device_class \<Rightarrow> string \<Rightarrow> string \<Rightarrow> light_config \<Rightarrow> real \<Rightarrow> real \<Rightarrow> error + device" where
  "OnOffDevice_init c lid eid cfg now DEFAULT_TRANSITION_SECONDS =
     (case cfg_throttle cfg of
        None \<Rightarrow> Inl TypeError
      | Some t \<Rightarrow>
          Inr \<lparr>cls = c, light_id = lid, entity_id = eid, config = cfg,
               throttle_ms = Some t, last_update = now,
               default_transition =
                 (if real_of_int t > DEFAULT_TRANSITION_SECONDS then real_of_int t / 1000
                  else DEFAULT_TRANSITION_SECONDS),
               hass_state = None, config_state = None, control_state = [],
               warnings = [], hass_calls = [], storage_writes = []\<rparr>)"

subsection \<open>Handle allocation\<close>

text \<open>\<^verbatim>\<open>OnOffDevice.__next_control_state_id\<close> (lines 143-147).\<close>

definition next_control_state_id :: "device \<Rightarrow> int" where
  "next_control_state_id self =
     (if control_state self \<noteq> [] then Max (set (map fst (control_state self))) + 1 else 0)"

text \<open>
  \<^verbatim>\<open>OnOffDevice._new_control_state\<close> (lines 239-247). \<^verbatim>\<open>not control_id\<close> holds for
  \<^verbatim>\<open>None\<close> and for \<open>0\<close>. Reading \<^verbatim>\<open>self._config_state.power_state\<close> raises
  \<^verbatim>\<open>AttributeError\<close> while the persisted state is still \<^verbatim>\<open>None\<close>.
\<close>

definition new_control_state :: "device \<Rightarrow> int option \<Rightarrow> (error + int) \<times> device" where
  "new_control_state self control_id =
     (let cid = (case control_id of
                   None \<Rightarrow> next_control_state_id self
                 | Some c \<Rightarrow> if c = 0 then next_control_state_id self else c)
      in case config_state self of
           None \<Rightarrow> (Inl AttributeError, self)
         | Some cs \<Rightarrow>
             (Inr cid,
              self\<lparr>control_state :=
                AList.update cid
                  (EntityState_empty\<lparr>power_state := power_state cs,
                     transition_seconds := Some (default_transition self)\<rparr>)
                  (control_state self)\<rparr>))"

subsection \<open>The decorator\<close>

text \<open>
  The call \<^verbatim>\<open>func(cls, setting, control_id, cls._control_state.get(control_id))\<close> of line
  36. The method body mutates the entry in place and returns the handle; here it returns
  the handle and the entry as mutated, which is written back under \<open>control_id\<close>. A
  body that raises leaves the entry as it was. Were the lookup to give \<^verbatim>\<open>None\<close>, the
  body's first attribute assignment would raise \<^verbatim>\<open>AttributeError\<close>.
\<close>

definition call_with_state ::
  "(device \<Rightarrow> 's option \<Rightarrow> int \<Rightarrow> EntityState \<Rightarrow> error + (int \<times> EntityState)) \<Rightarrow>
   device \<Rightarrow> 's option \<Rightarrow> int \<Rightarrow> (error + int) \<times> device" where
  "call_with_state func cls' setting control_id =
     (case map_of (control_state cls') control_id of
        None \<Rightarrow> (Inl AttributeError, cls')
      | Some st \<Rightarrow>
          (case func cls' setting control_id st of
             Inl e \<Rightarrow> (Inl e, cls')
           | Inr (ret, st') \<Rightarrow>
               (Inr ret,
                cls'\<lparr>control_state := AList.update control_id st' (control_state cls')\<rparr>)))"

text \<open>
  \<^verbatim>\<open>ensure_control_state.wrapped_func\<close> (lines 24-36), for a call that passes the
  setting and the handle positionally. Both are read through \<^verbatim>\<open>or\<close>: a falsy setting
  reaches the body as \<^verbatim>\<open>None\<close>, and the handle \<open>0\<close> is taken for no handle.
\<close>

definition ensure_control_state ::
  "(device \<Rightarrow> 's option \<Rightarrow> int \<Rightarrow> EntityState \<Rightarrow> error + (int \<times> EntityState)) \<Rightarrow>
   ('s \<Rightarrow> bool) \<Rightarrow> device \<Rightarrow> 's \<Rightarrow> int option \<Rightarrow> (error + int) \<times> device" where
  "ensure_control_state func truthy cls' setting0 control_id0 =
     (let setting = py_or_None truthy setting0;
          control_id = (case control_id0 of
                          None \<Rightarrow> None
                        | Some c \<Rightarrow> py_or_None truthy_int c)
      in case control_id of
           None \<Rightarrow>
             (case new_control_state cls' None of
                (Inl e, s) \<Rightarrow> (Inl e, s)
              | (Inr cid, s) \<Rightarrow> call_with_state func s setting cid)
         | Some cid \<Rightarrow>
             (case map_of (control_state cls') cid of
                None \<Rightarrow>
                  (case new_control_state
                          (cls'\<lparr>warnings := warnings cls' @ [InvalidControlId cid]\<rparr>)
                          (Some cid) of
                     (Inl e, s) \<Rightarrow> (Inl e, s)
                   | (Inr _, s) \<Rightarrow> call_with_state func s setting cid)
              | Some _ \<Rightarrow> call_with_state func cls' setting cid))"

subsection \<open>Write operations of \<^verbatim>\<open>OnOffDevice\<close>\<close>

text \<open>
  Each write operation below is given as its undecorated body (\<open>_body\<close>) and as the
  method a caller sees. The body receives the setting as the decorator passes it on:
  \<open>None\<close> is Python's \<^verbatim>\<open>None\<close>.
\<close>

text \<open>
  \<^verbatim>\<open>OnOffDevice.set_transition_ms\<close> (lines 262-268). The comparison
  \<^verbatim>\<open>transition_ms < self._throttle_ms\<close> raises \<^verbatim>\<open>TypeError\<close> when either side is
  \<^verbatim>\<open>None\<close>.
\<close>

definition set_transition_ms_body ::
  "device \<Rightarrow> real option \<Rightarrow> int \<Rightarrow> EntityState \<Rightarrow> error + (int \<times> EntityState)" where
  "set_transition_ms_body self transition_ms control_id st =
     (case transition_ms of
        None \<Rightarrow> Inl TypeError
      | Some ms \<Rightarrow>
          (case throttle_ms self of
             None \<Rightarrow> Inl TypeError
           | Some t \<Rightarrow>
               (let ms' = (if ms < real_of_int t then real_of_int t else ms)
                in Inr (control_id, st\<lparr>transition_seconds := Some (ms' / 1000)\<rparr>))))"

definition set_transition_ms :: "device \<Rightarrow> real \<Rightarrow> int option \<Rightarrow> (error + int) \<times> device" where
  "set_transition_ms = ensure_control_state set_transition_ms_body truthy_float"

text \<open>\<^verbatim>\<open>OnOffDevice.set_transition_seconds\<close> (lines 270-272), not decorated.\<close>

definition set_transition_seconds ::
  "device \<Rightarrow> real \<Rightarrow> int option \<Rightarrow> (error + int) \<times> device" where
  "set_transition_seconds self seconds control_id =
     set_transition_ms self (seconds * 1000) control_id"

text \<open>\<^verbatim>\<open>OnOffDevice.set_power_state\<close> (lines 274-278).\<close>

definition set_power_state_body ::
  "device \<Rightarrow> bool option \<Rightarrow> int \<Rightarrow> EntityState \<Rightarrow> error + (int \<times> EntityState)" where
  "set_power_state_body self setting control_id st =
     Inr (control_id, st\<lparr>power_state := setting\<rparr>)"

definition set_power_state :: "device \<Rightarrow> bool \<Rightarrow> int option \<Rightarrow> (error + int) \<times> device" where
  "set_power_state = ensure_control_state set_power_state_body truthy_bool"

subsection \<open>Write operations of \<^verbatim>\<open>BrightnessDevice\<close>\<close>

text \<open>
  Modelled from the spec: \<^verbatim>\<open>utils.clamp\<close> is imported by the source but is not among
  the source files. It limits a number to the closed range between its second and third
  argument, which is how the call \<^verbatim>\<open>clamp(brightness, 1, 255)\<close> uses it. The
  brightness is an int, on which the enclosing \<^verbatim>\<open>int(_)\<close> changes nothing.
\<close>

definition clamp :: "int \<Rightarrow> int \<Rightarrow> int \<Rightarrow> int" where
  "clamp v lo hi = max lo (min v hi)"

text \<open>
  \<^verbatim>\<open>BrightnessDevice.set_brightness\<close> (lines 317-321). With the setting \<^verbatim>\<open>None\<close>
  the expression \<^verbatim>\<open>int(clamp(None, 1, 255))\<close> raises \<^verbatim>\<open>TypeError\<close>: neither a
  comparison of \<^verbatim>\<open>None\<close> with a number nor \<^verbatim>\<open>int(None)\<close> is defined.
\<close>

definition set_brightness_body ::
  "device \<Rightarrow> int option \<Rightarrow> int \<Rightarrow> EntityState \<Rightarrow> error + (int \<times> EntityState)" where
  "set_brightness_body self setting control_id st =
     (case setting of
        None \<Rightarrow> Inl TypeError
      | Some b \<Rightarrow> Inr (control_id, st\<lparr>brightness := Some (clamp b 1 255)\<rparr>))"

definition set_brightness :: "device \<Rightarrow> int \<Rightarrow> int option \<Rightarrow> (error + int) \<times> device" where
  "set_brightness = ensure_control_state set_brightness_body truthy_int"

text \<open>\<^verbatim>\<open>BrightnessDevice.set_flash\<close> (lines 332-340).\<close>

definition set_flash_body ::
  "device \<Rightarrow> string option \<Rightarrow> int \<Rightarrow> EntityState \<Rightarrow> error + (int \<times> EntityState)" where
  "set_flash_body self setting control_id st =
     Inr (control_id, st\<lparr>flash_state := setting\<rparr>)"

definition BrightnessDevice_set_flash ::
  "device \<Rightarrow> string \<Rightarrow> int option \<Rightarrow> (error + int) \<times> device" where
  "BrightnessDevice_set_flash = ensure_control_state set_flash_body truthy_str"

subsection \<open>Write operations of \<^verbatim>\<open>CTDevice\<close> and \<^verbatim>\<open>RGBDevice\<close>\<close>

text \<open>\<^verbatim>\<open>CTDevice.set_color_temperature\<close> (lines 377-382).\<close>

definition set_color_temperature_body ::
  "device \<Rightarrow> int option \<Rightarrow> int \<Rightarrow> EntityState \<Rightarrow> error + (int \<times> EntityState)" where
  "set_color_temperature_body self setting control_id st =
     Inr (control_id,
          st\<lparr>color_temp := setting, color_mode := Some HASS_COLOR_MODE_COLOR_TEMP\<rparr>)"

definition set_color_temperature ::
  "device \<Rightarrow> int \<Rightarrow> int option \<Rightarrow> (error + int) \<times> device" where
  "set_color_temperature = ensure_control_state set_color_temperature_body truthy_int"

text \<open>
  \<^verbatim>\<open>RGBDevice.set_hue_sat\<close> (lines 421-427). Unpacking \<^verbatim>\<open>None\<close> raises
  \<^verbatim>\<open>TypeError\<close>.
\<close>

definition set_hue_sat_body ::
  "device \<Rightarrow> (real \<times> real) option \<Rightarrow> int \<Rightarrow> EntityState \<Rightarrow> error + (int \<times> EntityState)" where
  "set_hue_sat_body self setting control_id st =
     (case setting of
        None \<Rightarrow> Inl TypeError
      | Some (hue, sat) \<Rightarrow>
          Inr (control_id,
               st\<lparr>hue_saturation := Some (py_int hue, py_int sat),
                  color_mode := Some HASS_COLOR_MODE_HS\<rparr>))"

definition set_hue_sat ::
  "device \<Rightarrow> real \<times> real \<Rightarrow> int option \<Rightarrow> (error + int) \<times> device" where
  "set_hue_sat = ensure_control_state set_hue_sat_body truthy_tuple"

text \<open>
  \<^verbatim>\<open>RGBDevice.set_xy\<close> (lines 434-439). The method carries no decorator, so a caller's
  \<^verbatim>\<open>set_xy(x_y, control_id)\<close> runs the body with the default
  \<^verbatim>\<open>__control_state = None\<close>, and the first attribute assignment raises
  \<^verbatim>\<open>AttributeError\<close>.
\<close>

definition set_xy_body ::
  "device \<Rightarrow> real \<times> real \<Rightarrow> int option \<Rightarrow> EntityState option \<Rightarrow>
   error + (int option \<times> EntityState)" where
  "set_xy_body self x_y control_id st0 =
     (case x_y of (x, y) \<Rightarrow>
        (case st0 of
           None \<Rightarrow> Inl AttributeError
         | Some st \<Rightarrow>
             Inr (control_id,
                  st\<lparr>xy_color := Some (x, y), color_mode := Some HASS_COLOR_MODE_XY\<rparr>)))"

definition set_xy ::
  "device \<Rightarrow> real \<times> real \<Rightarrow> int option \<Rightarrow> (error + int option) \<times> device" where
  "set_xy self x_y control_id =
     (case set_xy_body self x_y control_id None of
        Inl e \<Rightarrow> (Inl e, self)
      | Inr (ret, st) \<Rightarrow> (Inr ret, self))"

text \<open>\<^verbatim>\<open>RGBDevice.set_rgb\<close> (lines 446-452); the components are ints.\<close>

definition set_rgb_body ::
  "device \<Rightarrow> (int \<times> int \<times> int) option \<Rightarrow> int \<Rightarrow> EntityState \<Rightarrow>
   error + (int \<times> EntityState)" where
  "set_rgb_body self setting control_id st =
     (case setting of
        None \<Rightarrow> Inl TypeError
      | Some (r, g, b) \<Rightarrow>
          Inr (control_id,
               st\<lparr>rgb_color := Some (r, g, b), color_mode := Some HASS_COLOR_MODE_RGB\<rparr>))"

definition set_rgb ::
  "device \<Rightarrow> int \<times> int \<times> int \<Rightarrow> int option \<Rightarrow> (error + int) \<times> device" where
  "set_rgb = ensure_control_state set_rgb_body truthy_tuple"

text \<open>\<^verbatim>\<open>RGBDevice.set_effect\<close> (lines 468-472).\<close>

definition set_effect_body ::
  "device \<Rightarrow> string option \<Rightarrow> int \<Rightarrow> EntityState \<Rightarrow> error + (int \<times> EntityState)" where
  "set_effect_body self setting control_id st =
     Inr (control_id, st\<lparr>effect := setting\<rparr>)"

definition set_effect :: "device \<Rightarrow> string \<Rightarrow> int option \<Rightarrow> (error + int) \<times> device" where
  "set_effect = ensure_control_state set_effect_body truthy_str"

subsection \<open>Read properties used by the flash operations\<close>

text \<open>
  \<^verbatim>\<open>value or default\<close> on an attribute of the persisted state: the default stands in
  for \<^verbatim>\<open>None\<close> and for every other falsy value.
\<close>

definition py_or_default :: "('a \<Rightarrow> bool) \<Rightarrow> 'a option \<Rightarrow> 'a \<Rightarrow> 'a" where
  "py_or_default truthy v d = (case v of None \<Rightarrow> d | Some x \<Rightarrow> if truthy x then x else d)"

text \<open>
  \<^verbatim>\<open>CTDevice.color_mode\<close> (lines 357-360) and \<^verbatim>\<open>RGBDevice.color_mode\<close> (lines
  411-414). Reading an attribute of \<^verbatim>\<open>self._config_state\<close> raises
  \<^verbatim>\<open>AttributeError\<close> while it is \<^verbatim>\<open>None\<close>.
\<close>

definition CTDevice_color_mode :: "device \<Rightarrow> error + string" where
  "CTDevice_color_mode self =
     (case config_state self of
        None \<Rightarrow> Inl AttributeError
      | Some cs \<Rightarrow> Inr (py_or_default truthy_str (color_mode cs) HASS_ATTR_COLOR_TEMP))"

definition RGBDevice_color_mode :: "device \<Rightarrow> error + string" where
  "RGBDevice_color_mode self =
     (case config_state self of
        None \<Rightarrow> Inl AttributeError
      | Some cs \<Rightarrow> Inr (py_or_default truthy_str (color_mode cs) HASS_COLOR_MODE_XY))"

text \<open>
  \<^verbatim>\<open>self.color_mode\<close> by method resolution order. For \<^verbatim>\<open>RGBWDevice(CTDevice,
  RGBDevice)\<close> the order is RGBW, CT, RGB, Brightness, OnOff, so the property of
  \<^verbatim>\<open>CTDevice\<close> is found first. The two base classes have no such attribute.
\<close>

definition device_color_mode :: "device \<Rightarrow> error + string" where
  "device_color_mode self =
     (case cls self of
        OnOffDevice \<Rightarrow> Inl AttributeError
      | BrightnessDevice \<Rightarrow> Inl AttributeError
      | CTDevice \<Rightarrow> CTDevice_color_mode self
      | RGBDevice \<Rightarrow> RGBDevice_color_mode self
      | RGBWDevice \<Rightarrow> CTDevice_color_mode self)"

text \<open>\<^verbatim>\<open>CTDevice.color_temp\<close> (lines 372-375).\<close>

definition CTDevice_color_temp :: "device \<Rightarrow> error + int" where
  "CTDevice_color_temp self =
     (case config_state self of
        None \<Rightarrow> Inl AttributeError
      | Some cs \<Rightarrow> Inr (py_or_default truthy_int (color_temp cs) 153))"

text \<open>\<^verbatim>\<open>RGBDevice.hue_sat\<close> (lines 416-419).\<close>

definition RGBDevice_hue_sat :: "device \<Rightarrow> error + (int \<times> int)" where
  "RGBDevice_hue_sat self =
     (case config_state self of
        None \<Rightarrow> Inl AttributeError
      | Some cs \<Rightarrow> Inr (py_or_default truthy_tuple (hue_saturation cs) (0, 0)))"

subsection \<open>Flash\<close>

text \<open>
  \<^verbatim>\<open>RGBDevice.set_flash\<close> (lines 454-461). \<^verbatim>\<open>super()\<close> after \<^verbatim>\<open>RGBDevice\<close> is
  \<^verbatim>\<open>BrightnessDevice\<close> for both an RGB and an RGBW object. The handle that
  \<^verbatim>\<open>set_hue_sat\<close> returns is dropped.
\<close>

definition RGBDevice_set_flash ::
  "device \<Rightarrow> string \<Rightarrow> int option \<Rightarrow> (error + int) \<times> device" where
  "RGBDevice_set_flash self flash control_id0 =
     (case BrightnessDevice_set_flash self flash control_id0 of
        (Inl e, s1) \<Rightarrow> (Inl e, s1)
      | (Inr control_id, s1) \<Rightarrow>
          (case RGBDevice_hue_sat s1 of
             Inl e \<Rightarrow> (Inl e, s1)
           | Inr (h, s) \<Rightarrow>
               (case set_hue_sat s1 (real_of_int h, real_of_int s) (Some control_id) of
                  (Inl e, s2) \<Rightarrow> (Inl e, s2)
                | (Inr _, s2) \<Rightarrow> (Inr control_id, s2))))"

text \<open>
  \<^verbatim>\<open>CTDevice.set_flash\<close> (lines 384-389). \<^verbatim>\<open>super()\<close> after \<^verbatim>\<open>CTDevice\<close> is
  \<^verbatim>\<open>RGBDevice\<close> when the object is an \<^verbatim>\<open>RGBWDevice\<close>, and \<^verbatim>\<open>BrightnessDevice\<close>
  when it is a \<^verbatim>\<open>CTDevice\<close>.
\<close>

definition CTDevice_set_flash ::
  "device \<Rightarrow> string \<Rightarrow> int option \<Rightarrow> (error + int) \<times> device" where
  "CTDevice_set_flash self flash control_id0 =
     (case (if cls self = RGBWDevice then RGBDevice_set_flash self flash control_id0
            else BrightnessDevice_set_flash self flash control_id0) of
        (Inl e, s1) \<Rightarrow> (Inl e, s1)
      | (Inr control_id, s1) \<Rightarrow>
          (case CTDevice_color_temp s1 of
             Inl e \<Rightarrow> (Inl e, s1)
           | Inr ct \<Rightarrow>
               (case set_color_temperature s1 ct (Some control_id) of
                  (Inl e, s2) \<Rightarrow> (Inl e, s2)
                | (Inr _, s2) \<Rightarrow> (Inr control_id, s2))))"

text \<open>\<^verbatim>\<open>RGBWDevice.set_flash\<close> (lines 483-489).\<close>

definition RGBWDevice_set_flash ::
  "device \<Rightarrow> string \<Rightarrow> int option \<Rightarrow> (error + int) \<times> device" where
  "RGBWDevice_set_flash self flash control_id =
     (case device_color_mode self of
        Inl e \<Rightarrow> (Inl e, self)
      | Inr m \<Rightarrow>
          if m = HASS_ATTR_COLOR_TEMP then CTDevice_set_flash self flash control_id
          else RGBDevice_set_flash self flash control_id)"

text \<open>\<^verbatim>\<open>device.set_flash(flash, control_id)\<close>, resolved by the object's class.\<close>

definition set_flash :: "device \<Rightarrow> string \<Rightarrow> int option \<Rightarrow> (error + int) \<times> device" where
  "set_flash self flash control_id =
     (case cls self of
        OnOffDevice \<Rightarrow> (Inl AttributeError, self)
      | BrightnessDevice \<Rightarrow> BrightnessDevice_set_flash self flash control_id
      | CTDevice \<Rightarrow> CTDevice_set_flash self flash control_id
      | RGBDevice \<Rightarrow> RGBDevice_set_flash self flash control_id
      | RGBWDevice \<Rightarrow> RGBWDevice_set_flash self flash control_id)"

subsection \<open>Reconciliation\<close>

text \<open>
  The body of the loop of \<^verbatim>\<open>_async_update_config_states\<close> (lines 200-208) for one
  name of \<^verbatim>\<open>ALL_STATES\<close>; \<open>state\<close> is \<^verbatim>\<open>getattr(_, state)\<close>, and on the
  configuration's dictionary \<^verbatim>\<open>.get(state, None)\<close>. An entity state is truthy.
\<close>

definition best_value ::
  "EntityState option \<Rightarrow> EntityState option \<Rightarrow> light_config \<Rightarrow>
   (EntityState \<Rightarrow> 'a option) \<Rightarrow> 'a option" where
  "best_value control hass cfg state =
     (if (case control of None \<Rightarrow> False | Some c \<Rightarrow> state c \<noteq> None)
        then (case control of None \<Rightarrow> None | Some c \<Rightarrow> state c)
      else if (case hass of None \<Rightarrow> False | Some h \<Rightarrow> state h \<noteq> None)
        then (case hass of None \<Rightarrow> None | Some h \<Rightarrow> state h)
      else (case cfg_state cfg of None \<Rightarrow> None | Some d \<Rightarrow> state d))"

text \<open>
  \<^verbatim>\<open>OnOffDevice._async_update_config_states\<close> (lines 197-212), the loop unrolled over
  the fields. The in-memory assignments come first; \<^verbatim>\<open>_async_save_config\<close> then writes
  the configuration to the store under the light id, and \<open>store_ok\<close> says whether that
  write succeeds. A failed write raises with the assignments already made.
\<close>

definition async_update_config_states ::
  "device \<Rightarrow> EntityState option \<Rightarrow> bool \<Rightarrow> error option \<times> device" where
  "async_update_config_states self control store_ok =
     (let save_state =
            \<lparr>power_state = best_value control (hass_state self) (config self) power_state,
             reachable = best_value control (hass_state self) (config self) reachable,
             transition_seconds =
               best_value control (hass_state self) (config self) transition_seconds,
             brightness = best_value control (hass_state self) (config self) brightness,
             flash_state = best_value control (hass_state self) (config self) flash_state,
             color_temp = best_value control (hass_state self) (config self) color_temp,
             color_mode = best_value control (hass_state self) (config self) color_mode,
             hue_saturation =
               best_value control (hass_state self) (config self) hue_saturation,
             xy_color = best_value control (hass_state self) (config self) xy_color,
             rgb_color = best_value control (hass_state self) (config self) rgb_color,
             effect = best_value control (hass_state self) (config self) effect\<rparr>;
          s1 = self\<lparr>config := (config self)\<lparr>cfg_state := Some save_state\<rparr>,
                    config_state := Some save_state\<rparr>
      in if store_ok
         then (None, s1\<lparr>storage_writes := storage_writes s1 @ [(light_id s1, config s1)]\<rparr>)
         else (Some StoreError, s1))"

subsection \<open>Throttle gate and commit\<close>

text \<open>
  \<^verbatim>\<open>OnOffDevice._async_update_allowed\<close> (lines 224-237). \<open>now\<close> is what
  \<^verbatim>\<open>datetime.now().timestamp()\<close> returns, in seconds.
\<close>

definition async_update_allowed :: "device \<Rightarrow> EntityState \<Rightarrow> real \<Rightarrow> bool \<times> device" where
  "async_update_allowed self control now =
     (case throttle_ms self of
        None \<Rightarrow> (True, self)
      | Some t \<Rightarrow>
          if t = 0 then (True, self)
          else if config_state self = Some control then (False, self)
          else if now - last_update self < real_of_int t / 1000 then (False, self)
          else (True, self\<lparr>last_update := now\<rparr>))"

text \<open>
  \<^verbatim>\<open>OnOffDevice.async_execute\<close> (lines 280-297). \<open>hass_ok\<close> says whether the backend
  call returns rather than raises, \<open>store_ok\<close> the same for the store write of the
  reconciliation.
\<close>

definition async_execute ::
  "device \<Rightarrow> int \<Rightarrow> real \<Rightarrow> bool \<Rightarrow> bool \<Rightarrow> error option \<times> device" where
  "async_execute self control_id now hass_ok store_ok =
     (case map_of (control_state self) control_id of
        None \<Rightarrow>
          (None, self\<lparr>warnings := warnings self @ [NoStateToExecute (entity_id self)]\<rparr>)
      | Some control \<Rightarrow>
          (let s1 = self\<lparr>control_state := AList.delete control_id (control_state self)\<rparr>
           in case async_update_allowed s1 control now of
                (False, s2) \<Rightarrow> (None, s2)
              | (True, s2) \<Rightarrow>
                  if \<not> hass_ok then (Some BackendError, s2)
                  else async_update_config_states
                         (s2\<lparr>hass_calls := hass_calls s2 @
                               [if power_state control = Some True
                                then TurnOn (entity_id s2) control
                                else TurnOff (entity_id s2) control]\<rparr>)
                         (Some control) store_ok))"

section \<open>Device factory\<close>

text \<open>
  The class that \<^verbatim>\<open>async_get_device\<close> (lines 507-578) constructs for an entity that is
  not yet cached, from the entity's supported color modes.
\<close>

definition async_get_device_class :: "string list \<Rightarrow> device_class" where
  "async_get_device_class entity_color_modes =
     (if list_ex (\<lambda>color_mode. color_mode \<in> set
            [HASS_COLOR_MODE_HS, HASS_COLOR_MODE_XY, HASS_COLOR_MODE_RGB,
             HASS_COLOR_MODE_RGBW, HASS_COLOR_MODE_RGBWW]) entity_color_modes
         \<and> list_ex (\<lambda>color_mode. color_mode \<in> set
            [HASS_COLOR_MODE_COLOR_TEMP, HASS_COLOR_MODE_RGBW, HASS_COLOR_MODE_RGBWW,
             HASS_COLOR_MODE_WHITE]) entity_color_modes
      then RGBWDevice
      else if list_ex (\<lambda>color_mode. color_mode \<in> set
            [HASS_COLOR_MODE_HS, HASS_COLOR_MODE_XY, HASS_COLOR_MODE_RGB]) entity_color_modes
      then RGBDevice
      else if HASS_COLOR_MODE_COLOR_TEMP \<in> set entity_color_modes then CTDevice
      else if HASS_COLOR_MODE_BRIGHTNESS \<in> set entity_color_modes then BrightnessDevice
      else OnOffDevice)"

section \<open>The specification's reconciliation rule\<close>

text \<open>
  The rule of the specification, in its own words: for every field the control state's
  value if it is defined, else the backend state's value if it is defined, else the
  previous persisted value, else unset. A state that is absent defines no field.
\<close>

definition precedence :: "'a option \<Rightarrow> 'a option \<Rightarrow> 'a option \<Rightarrow> 'a option" where
  "precedence control backend persisted =
     (case control of
        Some v \<Rightarrow> Some v
      | None \<Rightarrow> (case backend of Some v \<Rightarrow> Some v | None \<Rightarrow> persisted))"

definition field_of :: "EntityState option \<Rightarrow> (EntityState \<Rightarrow> 'a option) \<Rightarrow> 'a option" where
  "field_of st f = (case st of None \<Rightarrow> None | Some s \<Rightarrow> f s)"

definition reconciled ::
  "EntityState option \<Rightarrow> EntityState option \<Rightarrow> EntityState option \<Rightarrow> EntityState" where
  "reconciled c b p =
     \<lparr>power_state =
        precedence (field_of c power_state) (field_of b power_state) (field_of p power_state),
      reachable =
        precedence (field_of c reachable) (field_of b reachable) (field_of p reachable),
      transition_seconds =
        precedence (field_of c transition_seconds) (field_of b transition_seconds)
          (field_of p transition_seconds),
      brightness =
        precedence (field_of c brightness) (field_of b brightness) (field_of p brightness),
      flash_state =
        precedence (field_of c flash_state) (field_of b flash_state) (field_of p flash_state),
      color_temp =
        precedence (field_of c color_temp) (field_of b color_temp) (field_of p color_temp),
      color_mode =
        precedence (field_of c color_mode) (field_of b color_mode) (field_of p color_mode),
      hue_saturation =
        precedence (field_of c hue_saturation) (field_of b hue_saturation)
          (field_of p hue_saturation),
      xy_color =
        precedence (field_of c xy_color) (field_of b xy_color) (field_of p xy_color),
      rgb_color =
        precedence (field_of c rgb_color) (field_of b rgb_color) (field_of p rgb_color),
      effect = precedence (field_of c effect) (field_of b effect) (field_of p effect)\<rparr>"

section \<open>A concrete device\<close>

text \<open>
  An RGBW light after its first refresh: throttle 500 ms, default transition 0.5 s, the
  persisted state in color-temperature mode, no pending command.
\<close>

definition demo_state :: EntityState where
  "demo_state =
     EntityState_empty\<lparr>power_state := Some True, reachable := Some True,
       transition_seconds := Some (2 / 5), brightness := Some 200, color_temp := Some 300,
       color_mode := Some ''color_temp'', hue_saturation := Some (10, 20)\<rparr>"

definition demo_config :: light_config where
  "demo_config =
     \<lparr>cfg_name = Some ''Lamp'', cfg_uniqueid = Some ''00:11'', cfg_enabled = Some True,
      cfg_throttle = Some 500, cfg_state = Some demo_state\<rparr>"

definition demo_device :: device where
  "demo_device =
     \<lparr>cls = RGBWDevice, light_id = ''1'', entity_id = ''light.lamp'', config = demo_config,
      throttle_ms = Some 500, last_update = 0, default_transition = 1 / 2,
      hass_state = None, config_state = Some demo_state, control_state = [],
      warnings = [], hass_calls = [], storage_writes = []\<rparr>"

section \<open>Properties\<close>

lemmas const_defs =
  HASS_COLOR_MODE_HS_def HASS_COLOR_MODE_XY_def HASS_COLOR_MODE_RGB_def
  HASS_COLOR_MODE_RGBW_def HASS_COLOR_MODE_RGBWW_def HASS_COLOR_MODE_COLOR_TEMP_def
  HASS_COLOR_MODE_WHITE_def HASS_COLOR_MODE_BRIGHTNESS_def HASS_ATTR_COLOR_TEMP_def

lemmas demo_defs = demo_state_def demo_config_def demo_device_def EntityState_empty_def

lemmas write_defs =
  ensure_control_state_def call_with_state_def new_control_state_def
  next_control_state_id_def py_or_None_def truthy_bool_def truthy_int_def truthy_float_def
  truthy_str_def truthy_tuple_def Let_def

lemmas flash_defs =
  set_flash_def RGBWDevice_set_flash_def CTDevice_set_flash_def RGBDevice_set_flash_def
  BrightnessDevice_set_flash_def set_flash_body_def set_hue_sat_def set_hue_sat_body_def
  set_color_temperature_def set_color_temperature_body_def device_color_mode_def
  CTDevice_color_mode_def RGBDevice_color_mode_def CTDevice_color_temp_def
  RGBDevice_hue_sat_def py_or_default_def py_int_def

subsection \<open>Reconciliation\<close>

lemma best_value_precedence:
  "best_value control hass cfg state =
     precedence (field_of control state) (field_of hass state) (field_of (cfg_state cfg) state)"
  by (simp add: best_value_def precedence_def field_of_def split: option.splits)

text \<open>
  C1. Whatever the committed control state (if any), the backend state (if any) and the
  state last saved in the configuration are, the reconciliation makes every field of the
  persisted state the control state's value if defined, else the backend's if defined,
  else the previously saved one, else unset; the device's in-memory persisted state and
  the state entry of its configuration are both exactly this record, also when the store
  write that follows fails.
\<close>

theorem update_config_states_precedence:
  "config_state (snd (async_update_config_states self control store_ok)) =
     Some (reconciled control (hass_state self) (cfg_state (config self)))
   \<and> cfg_state (config (snd (async_update_config_states self control store_ok))) =
     Some (reconciled control (hass_state self) (cfg_state (config self)))"
  by (simp add: async_update_config_states_def Let_def best_value_precedence reconciled_def)

subsection \<open>Handle allocation\<close>

lemma next_control_state_id_fresh:
  "next_control_state_id self \<notin> fst ` set (control_state self)"
proof (cases "control_state self = []")
  case True
  then show ?thesis by simp
next
  case False
  have "k \<le> Max (fst ` set (control_state self))" if "k \<in> fst ` set (control_state self)" for k
    using that by (intro Max_ge) auto
  then have "Max (fst ` set (control_state self)) + 1 \<notin> fst ` set (control_state self)"
    by fastforce
  with False show ?thesis by (simp add: next_control_state_id_def)
qed

text \<open>
  C6. On a device that has a persisted state, allocating a control state without a handle
  returns the handle \<open>0\<close> when the store is empty and the largest existing handle plus
  one otherwise; that handle names no existing entry, and the store afterwards is the old
  one with the new handle bound to an entry seeded with the persisted power state and the
  default transition time.
\<close>

theorem new_control_state_next_handle:
  assumes "config_state self = Some cs"
  shows "\<exists>h s'. new_control_state self None = (Inr h, s')
     \<and> h = (if control_state self = [] then 0 else Max (fst ` set (control_state self)) + 1)
     \<and> h \<notin> fst ` set (control_state self)
     \<and> map_of (control_state s') =
         (map_of (control_state self))(h \<mapsto>
            EntityState_empty\<lparr>power_state := power_state cs,
              transition_seconds := Some (default_transition self)\<rparr>)"
  using assms next_control_state_id_fresh [of self]
  by (simp add: new_control_state_def Let_def AList.update_conv' next_control_state_id_def)

text \<open>The empty store yields handle \<open>0\<close>; a store with handles \<open>0\<close> and \<open>2\<close> yields \<open>3\<close>.\<close>

theorem new_control_state_next_handle_witness:
  "(\<exists>s'. new_control_state demo_device None = (Inr 0, s'))
   \<and> (\<exists>s'. new_control_state
              (demo_device\<lparr>control_state := [(0, demo_state), (2, EntityState_empty)]\<rparr>) None
            = (Inr 3, s'))"
proof -
  have a: "config_state demo_device = Some demo_state"
    by (simp add: demo_device_def)
  have b: "config_state
             (demo_device\<lparr>control_state := [(0, demo_state), (2, EntityState_empty)]\<rparr>)
           = Some demo_state"
    by (simp add: demo_device_def)
  from new_control_state_next_handle [OF a]
  have "\<exists>s'. new_control_state demo_device None = (Inr 0, s')"
    by (auto simp add: demo_device_def)
  moreover from new_control_state_next_handle [OF b]
  have "\<exists>s'. new_control_state
               (demo_device\<lparr>control_state := [(0, demo_state), (2, EntityState_empty)]\<rparr>) None
             = (Inr 3, s')"
    by (auto simp add: demo_device_def)
  ultimately show ?thesis by blast
qed

subsection \<open>Obtaining the control state of a write\<close>

text \<open>
  With a handle other than \<open>0\<close> that names an entry, and a truthy setting, the decorator
  runs the body on exactly that entry.
\<close>

lemma ensure_control_state_existing:
  assumes "h \<noteq> 0" and "map_of (control_state self) h = Some st" and "truthy v"
    and "func self (Some v) h st = Inr (r, st')"
  shows "ensure_control_state func truthy self v (Some h) =
           (Inr r, self\<lparr>control_state := AList.update h st' (control_state self)\<rparr>)"
  using assms by (simp add: write_defs)

text \<open>
  With a handle other than \<open>0\<close> that names no entry, it logs a warning and creates a
  seeded entry under that same handle before running the body.
\<close>

lemma ensure_control_state_unknown:
  assumes "h \<noteq> 0" and "map_of (control_state self) h = None" and "truthy v"
    and "config_state self = Some cs"
  shows "ensure_control_state func truthy self v (Some h) =
           call_with_state func
             (self\<lparr>warnings := warnings self @ [InvalidControlId h],
                control_state :=
                  AList.update h
                    (EntityState_empty\<lparr>power_state := power_state cs,
                       transition_seconds := Some (default_transition self)\<rparr>)
                    (control_state self)\<rparr>)
             (Some v) h"
  using assms
  by (simp add: ensure_control_state_def new_control_state_def py_or_None_def truthy_int_def
      Let_def)

lemma set_xy_raises: "set_xy self x_y control_id = (Inl AttributeError, self)"
  by (simp add: set_xy_def set_xy_body_def split: prod.splits)

text \<open>
  C2. On a device whose store holds an entry under handle \<open>0\<close> with power state off,
  \<^verbatim>\<open>set_power_state(True, 0)\<close> does not reuse that entry: it returns the fresh handle
  \<open>1\<close> and leaves the entry under \<open>0\<close> as it was. And \<^verbatim>\<open>set_xy((0.3, 0.3), None)\<close>
  raises \<^verbatim>\<open>AttributeError\<close>.
\<close>

theorem write_handle_zero_not_reused_and_set_xy_raises:
  "fst (set_power_state
          (demo_device\<lparr>control_state := [(0, demo_state\<lparr>power_state := Some False\<rparr>)]\<rparr>)
          True (Some 0)) = Inr 1
   \<and> map_of (control_state (snd (set_power_state
          (demo_device\<lparr>control_state := [(0, demo_state\<lparr>power_state := Some False\<rparr>)]\<rparr>)
          True (Some 0)))) 0 = Some (demo_state\<lparr>power_state := Some False\<rparr>)
   \<and> fst (set_xy demo_device (3 / 10, 3 / 10) None) = Inl AttributeError"
  by (simp add: set_power_state_def set_power_state_body_def set_xy_def set_xy_body_def
      write_defs demo_device_def)

subsection \<open>Power state\<close>

text \<open>
  C5. On a device whose store holds an entry under handle \<open>1\<close> with power state on,
  \<^verbatim>\<open>set_power_state(False, 1)\<close> returns \<open>1\<close> and leaves that entry's power state unset
  (\<^verbatim>\<open>None\<close>), not \<^verbatim>\<open>False\<close>.
\<close>

theorem set_power_state_False_stores_None:
  "fst (set_power_state (demo_device\<lparr>control_state := [(1, demo_state)]\<rparr>) False (Some 1))
     = Inr 1
   \<and> map_of (control_state (snd (set_power_state
        (demo_device\<lparr>control_state := [(1, demo_state)]\<rparr>) False (Some 1)))) 1
      = Some (demo_state\<lparr>power_state := None\<rparr>)"
  by (simp add: set_power_state_def set_power_state_body_def write_defs demo_device_def)

subsection \<open>Transition time\<close>

text \<open>
  With a throttle configured, a handle other than \<open>0\<close> that names an entry and a
  duration other than \<open>0\<close>, the stored transition time is the larger of the duration and
  the throttle, in seconds.
\<close>

lemma set_transition_ms_clamps:
  assumes "h \<noteq> 0" and "map_of (control_state self) h = Some st" and "ms \<noteq> 0"
    and "throttle_ms self = Some t"
  shows "set_transition_ms self ms (Some h) =
           (Inr h, self\<lparr>control_state :=
              AList.update h (st\<lparr>transition_seconds := Some (max ms (real_of_int t) / 1000)\<rparr>)
                (control_state self)\<rparr>)"
  using assms
  by (simp add: set_transition_ms_def set_transition_ms_body_def write_defs max_def)

text \<open>
  C7. On a device with throttle 500 ms whose store holds an entry under handle \<open>1\<close>,
  \<^verbatim>\<open>set_transition_ms(0, 1)\<close> and \<^verbatim>\<open>set_transition_seconds(0, 1)\<close> raise
  \<^verbatim>\<open>TypeError\<close> instead of storing the throttle; and on a device object whose
  throttle is unset, \<^verbatim>\<open>set_transition_ms(100, 1)\<close> raises \<^verbatim>\<open>TypeError\<close> instead of
  storing the requested duration.
\<close>

theorem set_transition_ms_raises_TypeError:
  "fst (set_transition_ms (demo_device\<lparr>control_state := [(1, demo_state)]\<rparr>) 0 (Some 1))
     = Inl TypeError
   \<and> fst (set_transition_seconds (demo_device\<lparr>control_state := [(1, demo_state)]\<rparr>) 0 (Some 1))
     = Inl TypeError
   \<and> fst (set_transition_ms
            (demo_device\<lparr>throttle_ms := None, control_state := [(1, demo_state)]\<rparr>)
            100 (Some 1)) = Inl TypeError"
  by (simp add: set_transition_ms_def set_transition_seconds_def set_transition_ms_body_def
      write_defs demo_device_def)

subsection \<open>Brightness\<close>

lemmas set_brightness_defs =
  set_brightness_def ensure_control_state_def call_with_state_def new_control_state_def
  set_brightness_body_def py_or_None_def truthy_int_def Let_def clamp_def

text \<open>Whenever the call returns a handle, the entry under it holds the clamped input.\<close>

lemma set_brightness_pinned:
  "fst (set_brightness self b cid) = Inr h \<Longrightarrow>
   \<exists>st. map_of (control_state (snd (set_brightness self b cid))) h = Some st
      \<and> brightness st = Some (max 1 (min b 255))"
  by (auto simp add: set_brightness_defs AList.update_conv'
      split: option.splits if_splits sum.splits prod.splits)

text \<open>
  On a device that has a persisted state, a nonzero input always returns a handle: the
  given one, or the next free one when none or \<open>0\<close> is given.
\<close>

lemma set_brightness_returns:
  "b \<noteq> 0 \<Longrightarrow> config_state self \<noteq> None \<Longrightarrow>
   fst (set_brightness self b cid) =
     Inr (case cid of
            None \<Rightarrow> next_control_state_id self
          | Some h \<Rightarrow> if h = 0 then next_control_state_id self else h)"
  by (auto simp add: set_brightness_defs AList.update_conv'
      split: option.splits if_splits sum.splits prod.splits)

text \<open>
  The input \<open>0\<close> reaches the body as \<^verbatim>\<open>None\<close> and the call raises; an entry found in
  the store afterwards is an old entry unchanged or a freshly seeded one without
  brightness.
\<close>

lemma set_brightness_zero:
  "config_state self \<noteq> None \<Longrightarrow> fst (set_brightness self 0 cid) = Inl TypeError"
  by (auto simp add: set_brightness_defs AList.update_conv'
      split: option.splits if_splits sum.splits prod.splits)

lemma set_brightness_zero_store:
  "map_of (control_state (snd (set_brightness self 0 cid))) k = Some st \<Longrightarrow>
   map_of (control_state self) k = Some st \<or> brightness st = None"
  by (auto simp add: set_brightness_defs AList.update_conv' EntityState_empty_def
      split: option.splits if_splits sum.splits prod.splits)

lemma set_brightness_others:
  "map_of (control_state (snd (set_brightness self b cid))) k = Some st \<Longrightarrow>
   brightness st = Some v \<Longrightarrow>
   v = max 1 (min b 255)
   \<or> (\<exists>st0. map_of (control_state self) k = Some st0 \<and> brightness st0 = Some v)"
  by (auto simp add: set_brightness_defs AList.update_conv' EntityState_empty_def
      split: option.splits if_splits sum.splits prod.splits)

text \<open>
  C10. The brightness that \<^verbatim>\<open>set_brightness\<close> stores is the input clamped to the range
  1 to 255, and nothing else. On a device with a persisted state every nonzero input
  \<open>b\<close> returns a handle (the given one, or the next free one when none or \<open>0\<close> is
  given); whenever a handle is returned, the entry under it has brightness
  \<open>max 1 (min b 255)\<close>, which lies between 1 and 255. The input \<open>0\<close> raises
  \<^verbatim>\<open>TypeError\<close> and stages no brightness: every entry in the store afterwards is an
  old entry unchanged or a fresh one whose brightness is unset. After any call, every
  brightness found in the store is the clamped input, between 1 and 255, or was already
  the brightness of the same entry before the call. So no call stages a brightness of 0.
\<close>

theorem set_brightness_clamps_input:
  "(b \<noteq> 0 \<and> config_state self \<noteq> None \<longrightarrow>
      fst (set_brightness self b cid) =
        Inr (case cid of
               None \<Rightarrow> next_control_state_id self
             | Some h \<Rightarrow> if h = 0 then next_control_state_id self else h))
   \<and> (\<forall>h. fst (set_brightness self b cid) = Inr h \<longrightarrow>
        (\<exists>st v. map_of (control_state (snd (set_brightness self b cid))) h = Some st
           \<and> brightness st = Some v \<and> v = max 1 (min b 255) \<and> 1 \<le> v \<and> v \<le> 255))
   \<and> (config_state self \<noteq> None \<longrightarrow> fst (set_brightness self 0 cid) = Inl TypeError)
   \<and> (\<forall>k st. map_of (control_state (snd (set_brightness self 0 cid))) k = Some st \<longrightarrow>
        map_of (control_state self) k = Some st \<or> brightness st = None)
   \<and> (\<forall>k st v. map_of (control_state (snd (set_brightness self b cid))) k = Some st
         \<and> brightness st = Some v \<longrightarrow>
       (v = max 1 (min b 255) \<and> 1 \<le> v \<and> v \<le> 255)
       \<or> (\<exists>st0. map_of (control_state self) k = Some st0 \<and> brightness st0 = Some v))"
proof (intro conjI allI impI)
  assume "b \<noteq> 0 \<and> config_state self \<noteq> None"
  then show "fst (set_brightness self b cid) =
        Inr (case cid of
               None \<Rightarrow> next_control_state_id self
             | Some h \<Rightarrow> if h = 0 then next_control_state_id self else h)"
    by (simp add: set_brightness_returns)
next
  fix h
  assume "fst (set_brightness self b cid) = Inr h"
  from set_brightness_pinned [OF this]
  show "\<exists>st v. map_of (control_state (snd (set_brightness self b cid))) h = Some st
           \<and> brightness st = Some v \<and> v = max 1 (min b 255) \<and> 1 \<le> v \<and> v \<le> 255"
    by auto
next
  assume "config_state self \<noteq> None"
  then show "fst (set_brightness self 0 cid) = Inl TypeError"
    by (rule set_brightness_zero)
next
  fix k st
  assume "map_of (control_state (snd (set_brightness self 0 cid))) k = Some st"
  then show "map_of (control_state self) k = Some st \<or> brightness st = None"
    by (rule set_brightness_zero_store)
next
  fix k st v
  assume "map_of (control_state (snd (set_brightness self b cid))) k = Some st
         \<and> brightness st = Some v"
  then have "v = max 1 (min b 255)
     \<or> (\<exists>st0. map_of (control_state self) k = Some st0 \<and> brightness st0 = Some v)"
    using set_brightness_others [of self b cid k st v] by simp
  then show "(v = max 1 (min b 255) \<and> 1 \<le> v \<and> v \<le> 255)
       \<or> (\<exists>st0. map_of (control_state self) k = Some st0 \<and> brightness st0 = Some v)"
    by auto
qed

text \<open>
  On the concrete device: the input 300 on the empty store is staged under handle \<open>0\<close>
  as 255; the input \<open>-5\<close> on the existing handle \<open>1\<close> is staged as 1; the input 100 is
  staged as 100; and the input \<open>0\<close> raises \<^verbatim>\<open>TypeError\<close>, leaving under handle \<open>0\<close> a
  seeded entry without brightness.
\<close>

theorem set_brightness_clamps_input_witness:
  "fst (set_brightness demo_device 300 None) = Inr 0
   \<and> (\<exists>st. map_of (control_state (snd (set_brightness demo_device 300 None))) 0 = Some st
         \<and> brightness st = Some 255)
   \<and> fst (set_brightness (demo_device\<lparr>control_state := [(1, demo_state)]\<rparr>) (- 5) (Some 1))
       = Inr 1
   \<and> (\<exists>st. map_of (control_state (snd (set_brightness
               (demo_device\<lparr>control_state := [(1, demo_state)]\<rparr>) (- 5) (Some 1)))) 1 = Some st
         \<and> brightness st = Some 1)
   \<and> (\<exists>st. map_of (control_state (snd (set_brightness
               (demo_device\<lparr>control_state := [(1, demo_state)]\<rparr>) 100 (Some 1)))) 1 = Some st
         \<and> brightness st = Some 100)
   \<and> fst (set_brightness demo_device 0 None) = Inl TypeError
   \<and> (\<exists>st. map_of (control_state (snd (set_brightness demo_device 0 None))) 0 = Some st
         \<and> brightness st = None)"
proof -
  have cfg: "config_state demo_device \<noteq> None"
    "config_state (demo_device\<lparr>control_state := [(1, demo_state)]\<rparr>) \<noteq> None"
    by (simp_all add: demo_device_def)
  have nid: "next_control_state_id demo_device = 0"
    by (simp add: next_control_state_id_def demo_device_def)
  from cfg nid set_brightness_clamps_input [of 300 demo_device None]
  have a: "fst (set_brightness demo_device 300 None) = Inr 0
     \<and> (\<exists>st. map_of (control_state (snd (set_brightness demo_device 300 None))) 0 = Some st
           \<and> brightness st = Some 255)"
    by auto
  from cfg set_brightness_clamps_input
         [of "- 5" "demo_device\<lparr>control_state := [(1, demo_state)]\<rparr>" "Some 1"]
  have b: "fst (set_brightness (demo_device\<lparr>control_state := [(1, demo_state)]\<rparr>) (- 5) (Some 1))
       = Inr 1
     \<and> (\<exists>st. map_of (control_state (snd (set_brightness
               (demo_device\<lparr>control_state := [(1, demo_state)]\<rparr>) (- 5) (Some 1)))) 1 = Some st
         \<and> brightness st = Some 1)"
    by auto
  from cfg set_brightness_clamps_input
         [of 100 "demo_device\<lparr>control_state := [(1, demo_state)]\<rparr>" "Some 1"]
  have c: "\<exists>st. map_of (control_state (snd (set_brightness
               (demo_device\<lparr>control_state := [(1, demo_state)]\<rparr>) 100 (Some 1)))) 1 = Some st
         \<and> brightness st = Some 100"
    by auto
  from cfg set_brightness_clamps_input [of 0 demo_device None]
  have d: "fst (set_brightness demo_device 0 None) = Inl TypeError"
    by simp
  have e: "\<exists>st. map_of (control_state (snd (set_brightness demo_device 0 None))) 0 = Some st
         \<and> brightness st = None"
    by (simp add: set_brightness_defs next_control_state_id_def demo_defs)
  from a b c d e show ?thesis by blast
qed

subsection \<open>Throttle gate\<close>

lemma async_update_allowed_disabled:
  "throttle_ms self = None \<or> throttle_ms self = Some 0 \<Longrightarrow>
   async_update_allowed self st now = (True, self)"
  by (auto simp add: async_update_allowed_def)

lemma async_update_allowed_enabled:
  assumes "throttle_ms self = Some t" and "t \<noteq> 0"
  shows "async_update_allowed self st now =
     (if config_state self = Some st then (False, self)
      else if now - last_update self < real_of_int t / 1000 then (False, self)
      else (True, self\<lparr>last_update := now\<rparr>))"
  using assms by (simp add: async_update_allowed_def)

text \<open>
  C4. Constructing a device from a configuration that has no throttle raises
  \<^verbatim>\<open>TypeError\<close>, whatever the class, the identifiers, the rest of the configuration,
  the time and the default transition are: no device with an unset throttle comes out of
  the constructor. In particular this holds for the concrete configuration with its
  throttle removed.
\<close>

theorem init_throttle_unset_raises:
  "OnOffDevice_init c lid eid (cfg\<lparr>cfg_throttle := None\<rparr>) now dflt = Inl TypeError
   \<and> OnOffDevice_init OnOffDevice ''1'' ''light.lamp'' (demo_config\<lparr>cfg_throttle := None\<rparr>)
        0 (2 / 5) = Inl TypeError"
  by (simp add: OnOffDevice_init_def)

subsection \<open>Commit\<close>

lemma update_allowed_control_state:
  "async_update_allowed (s\<lparr>control_state := x\<rparr>) st now =
     (fst (async_update_allowed s st now),
      (snd (async_update_allowed s st now))\<lparr>control_state := x\<rparr>)"
  by (simp add: async_update_allowed_def split: option.splits)

lemma update_allowed_keeps_store:
  "control_state (snd (async_update_allowed s st now)) = control_state s"
  by (simp add: async_update_allowed_def split: option.splits)

lemma update_config_states_keeps_store:
  "control_state (snd (async_update_config_states s c ok)) = control_state s"
  by (simp add: async_update_config_states_def Let_def)

lemma async_execute_store:
  "control_state (snd (async_execute self h now hass_ok store_ok)) =
     AList.delete h (control_state self)"
proof (cases "map_of (control_state self) h")
  case None
  then have "h \<notin> fst ` set (control_state self)"
    by (simp add: map_of_eq_None_iff)
  with None show ?thesis by (simp add: async_execute_def)
next
  case (Some st)
  then show ?thesis
    by (simp add: async_execute_def Let_def update_allowed_control_state
        update_config_states_keeps_store update_allowed_keeps_store
        split: prod.splits bool.splits)
qed

lemma async_execute_no_entry:
  "map_of (control_state self) h = None \<Longrightarrow>
   async_execute self h now hass_ok store_ok =
     (None, self\<lparr>warnings := warnings self @ [NoStateToExecute (entity_id self)]\<rparr>)"
  by (simp add: async_execute_def)

text \<open>
  When the entry exists, the gate allows and the backend call returns, exactly one
  command is sent: power-on if the entry's power state is true, power-off otherwise.
\<close>

lemma async_execute_dispatches_one:
  assumes "map_of (control_state self) h = Some st"
    and "fst (async_update_allowed self st now)" and "hass_ok"
  shows "hass_calls (snd (async_execute self h now hass_ok store_ok)) =
           hass_calls self @
             [if power_state st = Some True then TurnOn (entity_id self) st
              else TurnOff (entity_id self) st]"
  using assms
  by (auto simp add: async_execute_def Let_def async_update_allowed_def
      async_update_config_states_def split: option.splits if_splits)

text \<open>
  C3. Committing a handle that names no entry only logs a warning: nothing is sent, and
  the persisted state, the configuration and the store are as before. Committing a handle
  whose entry the throttle gate vetoes only removes that entry: nothing is sent and the
  persisted state is unchanged. Whatever the outcome (a veto, a dispatch, a backend or
  store failure), the handle names no entry afterwards and every other entry is kept, so
  a second commit of the same handle is the warning-only case.
\<close>

theorem async_execute_at_most_once:
  "(map_of (control_state self) h = None \<longrightarrow>
      async_execute self h now hass_ok store_ok =
        (None, self\<lparr>warnings := warnings self @ [NoStateToExecute (entity_id self)]\<rparr>))
   \<and> (\<forall>st. map_of (control_state self) h = Some st
            \<and> \<not> fst (async_update_allowed self st now) \<longrightarrow>
      async_execute self h now hass_ok store_ok =
        (None, self\<lparr>control_state := AList.delete h (control_state self)\<rparr>))
   \<and> map_of (control_state (snd (async_execute self h now hass_ok store_ok))) h = None
   \<and> (\<forall>k. k \<noteq> h \<longrightarrow>
        map_of (control_state (snd (async_execute self h now hass_ok store_ok))) k =
        map_of (control_state self) k)
   \<and> (let s1 = snd (async_execute self h now hass_ok store_ok) in
        async_execute s1 h now' hass_ok' store_ok' =
          (None, s1\<lparr>warnings := warnings s1 @ [NoStateToExecute (entity_id s1)]\<rparr>))"
proof (intro conjI)
  show "map_of (control_state self) h = None \<longrightarrow>
      async_execute self h now hass_ok store_ok =
        (None, self\<lparr>warnings := warnings self @ [NoStateToExecute (entity_id self)]\<rparr>)"
    by (simp add: async_execute_no_entry)
  show "\<forall>st. map_of (control_state self) h = Some st
            \<and> \<not> fst (async_update_allowed self st now) \<longrightarrow>
      async_execute self h now hass_ok store_ok =
        (None, self\<lparr>control_state := AList.delete h (control_state self)\<rparr>)"
    by (auto simp add: async_execute_def Let_def update_allowed_control_state
        async_update_allowed_def split: option.splits if_splits)
  show gone: "map_of (control_state (snd (async_execute self h now hass_ok store_ok))) h = None"
    by (simp add: async_execute_store AList.delete_conv')
  show "\<forall>k. k \<noteq> h \<longrightarrow>
        map_of (control_state (snd (async_execute self h now hass_ok store_ok))) k =
        map_of (control_state self) k"
    by (simp add: async_execute_store)
  show "let s1 = snd (async_execute self h now hass_ok store_ok) in
        async_execute s1 h now' hass_ok' store_ok' =
          (None, s1\<lparr>warnings := warnings s1 @ [NoStateToExecute (entity_id s1)]\<rparr>)"
    unfolding Let_def by (rule async_execute_no_entry) (rule gone)
qed

text \<open>
  On the concrete device: a commit of the unknown handle \<open>5\<close>; a commit that the gate
  vetoes because the entry equals the persisted state; and one it vetoes because only
  0.2 s have passed.
\<close>

theorem async_execute_at_most_once_witness:
  "async_execute demo_device 5 1 True True =
     (None, demo_device\<lparr>warnings := [NoStateToExecute ''light.lamp'']\<rparr>)
   \<and> async_execute (demo_device\<lparr>control_state := [(1, demo_state)]\<rparr>) 1 1 True True =
     (None, demo_device)
   \<and> async_execute
        (demo_device\<lparr>control_state := [(1, demo_state\<lparr>power_state := Some False\<rparr>)]\<rparr>)
        1 (1 / 5) True True = (None, demo_device)"
proof -
  have a: "map_of (control_state demo_device) 5 = None"
    by (simp add: demo_device_def)
  have b: "map_of (control_state (demo_device\<lparr>control_state := [(1, demo_state)]\<rparr>)) 1
        = Some demo_state
      \<and> \<not> fst (async_update_allowed (demo_device\<lparr>control_state := [(1, demo_state)]\<rparr>)
                 demo_state 1)"
    by (simp add: demo_device_def async_update_allowed_def)
  have c: "map_of (control_state
             (demo_device\<lparr>control_state := [(1, demo_state\<lparr>power_state := Some False\<rparr>)]\<rparr>)) 1
        = Some (demo_state\<lparr>power_state := Some False\<rparr>)
      \<and> \<not> fst (async_update_allowed
                 (demo_device\<lparr>control_state := [(1, demo_state\<lparr>power_state := Some False\<rparr>)]\<rparr>)
                 (demo_state\<lparr>power_state := Some False\<rparr>) (1 / 5))"
    by (simp add: demo_device_def async_update_allowed_def demo_state_def EntityState_empty_def)
  from a async_execute_at_most_once [of demo_device 5 1 True True]
  have "async_execute demo_device 5 1 True True =
     (None, demo_device\<lparr>warnings := [NoStateToExecute ''light.lamp'']\<rparr>)"
    by (simp add: demo_device_def)
  moreover
  from b async_execute_at_most_once
         [of "demo_device\<lparr>control_state := [(1, demo_state)]\<rparr>" 1 1 True True]
  have "async_execute (demo_device\<lparr>control_state := [(1, demo_state)]\<rparr>) 1 1 True True =
     (None, demo_device)"
    by (simp add: demo_device_def)
  moreover
  from c async_execute_at_most_once
         [of "demo_device\<lparr>control_state := [(1, demo_state\<lparr>power_state := Some False\<rparr>)]\<rparr>"
             1 "1 / 5" True True]
  have "async_execute
        (demo_device\<lparr>control_state := [(1, demo_state\<lparr>power_state := Some False\<rparr>)]\<rparr>)
        1 (1 / 5) True True = (None, demo_device)"
    by (simp add: demo_device_def)
  ultimately show ?thesis by simp
qed

subsection \<open>Device factory\<close>

lemma list_ex_mem: "list_ex (\<lambda>m. m \<in> A) xs = (set xs \<inter> A \<noteq> {})"
  by (auto simp: list_ex_iff)

text \<open>
  C8. For every list of supported color modes the factory picks one class by first
  match: RGBW when the list has one of hs, xy, rgb, rgbw, rgbww and one of color_temp,
  rgbw, rgbww, white; else RGB when it has one of hs, xy, rgb; else ColorTemperature when
  it has color_temp; else Brightness when it has brightness; else OnOff. The five rows of
  the truth table follow.
\<close>

theorem async_get_device_class_first_match:
  "async_get_device_class modes =
     (if set modes \<inter> {''hs'', ''xy'', ''rgb'', ''rgbw'', ''rgbww''} \<noteq> {}
         \<and> set modes \<inter> {''color_temp'', ''rgbw'', ''rgbww'', ''white''} \<noteq> {}
      then RGBWDevice
      else if set modes \<inter> {''hs'', ''xy'', ''rgb''} \<noteq> {} then RGBDevice
      else if ''color_temp'' \<in> set modes then CTDevice
      else if ''brightness'' \<in> set modes then BrightnessDevice
      else OnOffDevice)
   \<and> async_get_device_class [] = OnOffDevice
   \<and> async_get_device_class [''brightness''] = BrightnessDevice
   \<and> async_get_device_class [''color_temp''] = CTDevice
   \<and> async_get_device_class [''xy''] = RGBDevice
   \<and> async_get_device_class [''color_temp'', ''xy''] = RGBWDevice"
  unfolding async_get_device_class_def const_defs list_ex_mem
  by simp

subsection \<open>Flash on an RGBW device\<close>

text \<open>
  With a handle other than \<open>0\<close> that names an entry, the flash, the hue and saturation
  and the color temperature all land on that one entry.
\<close>

lemma RGBW_set_flash_nonzero_handle:
  "set_flash (demo_device\<lparr>control_state := [(1, EntityState_empty)]\<rparr>) ''short'' (Some 1) =
     (Inr 1,
      demo_device\<lparr>control_state :=
        [(1, EntityState_empty\<lparr>flash_state := Some ''short'', hue_saturation := Some (10, 20),
               color_temp := Some 300, color_mode := Some ''color_temp''\<rparr>)]\<rparr>)"
  by (simp add: flash_defs write_defs const_defs demo_defs)

text \<open>
  C9. On the RGBW device in color-temperature mode with an empty store,
  \<^verbatim>\<open>set_flash("short")\<close> returns handle \<open>0\<close>, whose entry holds the flash only; the hue
  and saturation are staged under handle \<open>1\<close> and the color temperature under handle
  \<open>2\<close>. With the persisted color mode xy, the flash is under \<open>0\<close> and the hue and
  saturation under \<open>1\<close>.
\<close>

theorem RGBW_set_flash_fresh_handle_splits:
  "set_flash demo_device ''short'' None =
     (Inr 0,
      demo_device\<lparr>control_state :=
        [(0, EntityState_empty\<lparr>power_state := Some True, transition_seconds := Some (1 / 2),
               flash_state := Some ''short''\<rparr>),
         (1, EntityState_empty\<lparr>power_state := Some True, transition_seconds := Some (1 / 2),
               hue_saturation := Some (10, 20), color_mode := Some ''hs''\<rparr>),
         (2, EntityState_empty\<lparr>power_state := Some True, transition_seconds := Some (1 / 2),
               color_temp := Some 300, color_mode := Some ''color_temp''\<rparr>)]\<rparr>)
   \<and> set_flash (demo_device\<lparr>config_state := Some (demo_state\<lparr>color_mode := Some ''xy''\<rparr>)\<rparr>)
        ''short'' None =
     (Inr 0,
      demo_device\<lparr>config_state := Some (demo_state\<lparr>color_mode := Some ''xy''\<rparr>),
        control_state :=
        [(0, EntityState_empty\<lparr>power_state := Some True, transition_seconds := Some (1 / 2),
               flash_state := Some ''short''\<rparr>),
         (1, EntityState_empty\<lparr>power_state := Some True, transition_seconds := Some (1 / 2),
               hue_saturation := Some (10, 20), color_mode := Some ''hs''\<rparr>)]\<rparr>)"
  by (simp add: flash_defs write_defs const_defs demo_defs)

end
